theory Spec2Isabelle
  imports Main "HOL-Library.AList" "HOL-Library.Multiset"
begin

section \<open>The detail view of a catalogue title (src/components/MovieDetails.tsx)\<close>

text \<open>
  The component \<open>MovieDetails\<close> receives a title (\<open>movie\<close>), the bot's user name and a
  channel link. Its logic is: two click handlers (\<open>handleWatch\<close>, \<open>handleDownload\<close>), the
  classification \<open>isSeries\<close>, the grouping \<open>episodesBySeason\<close> with the derived
  \<open>seasonNumbers\<close> and \<open>currentSeasonEpisodes\<close>, four pieces of view state, and the
  conditions under which controls are rendered.

  JavaScript values are embedded as follows. An optional string (\<open>code?: string\<close>) is a
  \<open>string option\<close>, \<open>None\<close> being \<open>undefined\<close>. A condition \<open>if (v)\<close> tests
  truthiness: an optional string is truthy when it is defined and not empty, an optional
  number when it is defined and not 0, an array always. Season and episode numbers are
  integers (\<open>int\<close>); fractional numbers and NaN are outside the model.
\<close>

subsection \<open>Truthiness\<close>

definition truthy :: "string option \<Rightarrow> bool" where
  "truthy v = (case v of None \<Rightarrow> False | Some s \<Rightarrow> s \<noteq> [])"

definition truthyNum :: "int option \<Rightarrow> bool" where
  "truthyNum v = (case v of None \<Rightarrow> False | Some n \<Rightarrow> n \<noteq> 0)"

definition truthyFlag :: "bool option \<Rightarrow> bool" where
  "truthyFlag v = (case v of None \<Rightarrow> False | Some b \<Rightarrow> b)"

subsection \<open>Opening a destination\<close>

text \<open>
  The handlers return nothing; what they do is call \<open>window.open(url, '_blank')\<close> or
  \<open>Telegram.WebApp.openTelegramLink(url)\<close>, after testing
  \<open>(window as any).Telegram?.WebApp\<close>. A handler is modelled by the list of these
  effects in the order in which it performs them: \<open>CheckWebApp\<close> is one evaluation of
  the condition \<open>if ((window as any).Telegram?.WebApp)\<close>, the two others are the two
  calls. \<open>botUsername\<close> is the component's property, \<open>webApp\<close> the truthiness of
  \<open>window.Telegram?.WebApp\<close> when the handler runs. The parameter of \<open>handleWatch\<close> is
  declared \<open>code: string\<close>, those of \<open>handleDownload\<close> are optional strings. The
  declared types are gone when the handlers run, and \<open>handleWatch\<close> does with
  \<open>undefined\<close> what it does with a string, so that its parameter is an optional string
  in the model as well.
\<close>

datatype effect =
    CheckWebApp
  | OpenTelegramLink string
  | WindowOpen string

text \<open>
  The template literal \<open>`https://t.me/${botUsername}?start=${code}`\<close>. A template
  literal renders \<open>undefined\<close> as the text \<open>undefined\<close>.
\<close>

definition interpolate :: "string option \<Rightarrow> string" where
  "interpolate v = (case v of None \<Rightarrow> ''undefined'' | Some s \<Rightarrow> s)"

definition deepLink :: "string \<Rightarrow> string option \<Rightarrow> string" where
  "deepLink botUsername code = ''https://t.me/'' @ botUsername @ ''?start='' @ interpolate code"

definition handleWatch :: "string \<Rightarrow> bool \<Rightarrow> string option \<Rightarrow> effect list" where
  "handleWatch botUsername webApp code =
     (let url = deepLink botUsername code
      in CheckWebApp # (if webApp then [OpenTelegramLink url] else [WindowOpen url]))"

definition handleDownload ::
  "string \<Rightarrow> bool \<Rightarrow> string option \<Rightarrow> string option \<Rightarrow> string option \<Rightarrow> effect list" where
  "handleDownload botUsername webApp downloadCode downloadLink fallbackCode =
     (if truthy downloadLink then [WindowOpen (the downloadLink)]
      else if truthy downloadCode then
        (let url = deepLink botUsername downloadCode
         in CheckWebApp # (if webApp then [OpenTelegramLink url] else [WindowOpen url]))
      else if truthy fallbackCode then handleWatch botUsername webApp fallbackCode
      else [])"

text \<open>The destinations a handler opened: the URLs, without the way they were opened.\<close>

fun destinations :: "effect list \<Rightarrow> string list" where
  "destinations [] = []"
| "destinations (CheckWebApp # es) = destinations es"
| "destinations (OpenTelegramLink u # es) = u # destinations es"
| "destinations (WindowOpen u # es) = u # destinations es"

subsection \<open>Titles and episodes\<close>

text \<open>
  Modelled from the spec: the declarations of \<open>Movie\<close> and of its episodes
  (\<open>../types\<close>) are not part of the sources. The records below hold the fields that
  \<open>MovieDetails\<close> reads, optional where the component tests them before use, and the
  episode's direct link of the spec's scenarios. Both records can be extended, so that a
  statement about every \<open>movie\<close> scheme holds whatever further attributes a title has.
\<close>

record episode =
  id :: string
  number :: int
  title :: string
  season :: "int option"
  isComingSoon :: "bool option"
  releaseDate :: "string option"
  telegramCode :: "string option"
  downloadCode :: "string option"
  downloadLink :: "string option"

record movie =
  category :: string
  rating :: int
  videoQuality :: "string option"
  customBadges :: "string list option"
  screenshots :: "string list option"
  episodes :: "episode list option"

subsection \<open>Classification\<close>

text \<open>
  \<open>movie.category === 'Series' || movie.category === 'Korean Drama' ||
  (movie.episodes && movie.episodes.length > 0)\<close>, read as a condition.
\<close>

definition isSeries :: "'a movie_scheme \<Rightarrow> bool" where
  "isSeries m =
     (category m = ''Series'' \<or> category m = ''Korean Drama'' \<or>
      (case episodes m of None \<Rightarrow> False | Some eps \<Rightarrow> length eps > 0))"

subsection \<open>Grouping episodes by season\<close>

text \<open>
  \<open>Array.prototype.sort\<close> with a comparator is a stable sort: an element stays before
  another one unless the comparator returns a positive number for the pair. It is
  modelled by insertion from the right, which places an element before the first one it
  does not compare greater than.
\<close>

fun insortCmp :: "('a \<Rightarrow> 'a \<Rightarrow> int) \<Rightarrow> 'a \<Rightarrow> 'a list \<Rightarrow> 'a list" where
  "insortCmp cmp x [] = [x]"
| "insortCmp cmp x (y # ys) = (if cmp x y \<le> 0 then x # y # ys else y # insortCmp cmp x ys)"

definition jsSort :: "('a \<Rightarrow> 'a \<Rightarrow> int) \<Rightarrow> 'a list \<Rightarrow> 'a list" where
  "jsSort cmp xs = foldr (insortCmp cmp) xs []"

text \<open>
  \<open>groups\<close> is an object with the season numbers as keys: an association list with one
  entry for each key, in the order in which the keys were added. The keys of the object
  are the decimal strings of the season numbers, which \<open>+key\<close> and \<open>Number\<close> read back;
  the model keeps the numbers. (JavaScript lists the keys of an object in another order,
  which nothing here observes: the keys are used to sort every group in place, and are
  themselves sorted for \<open>seasonNumbers\<close>.)
\<close>

type_synonym groups = "(int \<times> episode list) list"

text \<open>\<open>ep.season || 1\<close>\<close>

definition seasonOf :: "episode \<Rightarrow> int" where
  "seasonOf ep = (if truthyNum (season ep) then the (season ep) else 1)"

text \<open>
  The body of the first \<open>forEach\<close>: \<open>const s = ep.season || 1;
  if (!groups[s]) groups[s] = []; groups[s].push(ep)\<close>.
\<close>

definition addEpisode :: "groups \<Rightarrow> episode \<Rightarrow> groups" where
  "addEpisode groups ep =
     (let s = seasonOf ep;
          groups1 = (case map_of groups s of None \<Rightarrow> AList.update s [] groups
                     | Some _ \<Rightarrow> groups)
      in AList.map_entry s (\<lambda>g. g @ [ep]) groups1)"

text \<open>
  The comparator \<open>(a, b) => a.number - b.number\<close>, and the function of \<open>useMemo\<close>:
  no groups without episode list, else the first \<open>forEach\<close> over the episodes and then
  the sort of the array of every key.
\<close>

definition byNumber :: "episode \<Rightarrow> episode \<Rightarrow> int" where
  "byNumber a b = number a - number b"

definition episodesBySeason :: "'a movie_scheme \<Rightarrow> groups" where
  "episodesBySeason m =
     (case episodes m of
        None \<Rightarrow> []
      | Some eps \<Rightarrow>
          (let groups = foldl addEpisode [] eps
           in map (\<lambda>(key, g). (key, jsSort byNumber g)) groups))"

text \<open>\<open>Object.keys(episodesBySeason).map(Number).sort((a, b) => a - b)\<close>\<close>

definition seasonNumbers :: "'a movie_scheme \<Rightarrow> int list" where
  "seasonNumbers m = jsSort (\<lambda>a b. a - b) (map fst (episodesBySeason m))"

text \<open>\<open>episodesBySeason[selectedSeason] || []\<close>\<close>

definition currentSeasonEpisodes :: "'a movie_scheme \<Rightarrow> int \<Rightarrow> episode list" where
  "currentSeasonEpisodes m selectedSeason =
     (case map_of (episodesBySeason m) selectedSeason of None \<Rightarrow> [] | Some g \<Rightarrow> g)"

subsection \<open>What an episode card offers\<close>

text \<open>
  In the episode list, \<open>const isLocked = ep.isComingSoon\<close>; the row of controls is
  rendered under \<open>!isLocked\<close>. It holds the watch button, and the download button under
  \<open>ep.downloadCode\<close>. The buttons call \<open>handleWatch(ep.telegramCode)\<close> and
  \<open>handleDownload(ep.downloadCode)\<close>: the second and third parameter of
  \<open>handleDownload\<close> are left \<open>undefined\<close>.
\<close>

datatype control = WatchControl | DownloadControl

definition isLocked :: "episode \<Rightarrow> bool" where
  "isLocked ep = truthyFlag (isComingSoon ep)"

definition episodeControls :: "episode \<Rightarrow> control list" where
  "episodeControls ep =
     (if \<not> isLocked ep
      then WatchControl # (if truthy (downloadCode ep) then [DownloadControl] else [])
      else [])"

fun onClick :: "string \<Rightarrow> bool \<Rightarrow> episode \<Rightarrow> control \<Rightarrow> effect list" where
  "onClick botUsername webApp ep WatchControl = handleWatch botUsername webApp (telegramCode ep)"
| "onClick botUsername webApp ep DownloadControl =
     handleDownload botUsername webApp (downloadCode ep) None None"

subsection \<open>View state\<close>

text \<open>
  The four \<open>useState\<close> cells with their initial values, and the handlers that set them.
  A setter runs only from a control that is rendered: the tab buttons under \<open>isSeries\<close>,
  the season buttons (one for each member of \<open>seasonNumbers\<close>) under
  \<open>activeTab === 'episodes' && isSeries\<close> and \<open>seasonNumbers.length > 1\<close>, the
  screenshots under \<open>activeTab === 'info'\<close> when there are any, and the viewer with its
  close button under \<open>viewerOpen && movie.screenshots\<close>.
\<close>

datatype tab = EpisodesTab | InfoTab

record viewState =
  activeTab :: tab
  selectedSeason :: int
  viewerOpen :: bool
  viewerIndex :: nat

definition initialState :: viewState where
  "initialState = \<lparr>activeTab = EpisodesTab, selectedSeason = 1, viewerOpen = False,
     viewerIndex = 0\<rparr>"

definition seasonSelector :: "'a movie_scheme \<Rightarrow> viewState \<Rightarrow> int list" where
  "seasonSelector m st =
     (if activeTab st = EpisodesTab \<and> isSeries m \<and> length (seasonNumbers m) > 1
      then seasonNumbers m else [])"

datatype event =
    SetActiveTab tab
  | SetSelectedSeason int
  | ClickScreenshot nat
  | CloseViewer

fun rendered :: "'a movie_scheme \<Rightarrow> viewState \<Rightarrow> event \<Rightarrow> bool" where
  "rendered m st (SetActiveTab t) = isSeries m"
| "rendered m st (SetSelectedSeason s) = (s \<in> set (seasonSelector m st))"
| "rendered m st (ClickScreenshot idx) =
     (activeTab st = InfoTab \<and>
      (case screenshots m of None \<Rightarrow> False | Some shots \<Rightarrow> idx < length shots))"
| "rendered m st CloseViewer = (viewerOpen st \<and> screenshots m \<noteq> None)"

fun handle :: "viewState \<Rightarrow> event \<Rightarrow> viewState" where
  "handle st (SetActiveTab t) = st\<lparr>activeTab := t\<rparr>"
| "handle st (SetSelectedSeason s) = st\<lparr>selectedSeason := s\<rparr>"
| "handle st (ClickScreenshot idx) = st\<lparr>viewerIndex := idx, viewerOpen := True\<rparr>"
| "handle st CloseViewer = st\<lparr>viewerOpen := False\<rparr>"

text \<open>
  The states of one mounted view of the title \<open>m\<close>: the initial one, and those reached
  by an event of a control that is rendered.
\<close>

inductive reachable :: "'a movie_scheme \<Rightarrow> viewState \<Rightarrow> bool" for m where
  initial: "reachable m initialState"
| step: "reachable m st \<Longrightarrow> rendered m st ev \<Longrightarrow> reachable m (handle st ev)"

subsection \<open>Example data\<close>

text \<open>
  An episode and a title with given identifying fields and every other field at a fixed
  value; the concrete inputs of the evaluations below are built from them.
\<close>

definition exampleEpisode :: "string \<Rightarrow> int \<Rightarrow> int option \<Rightarrow> episode" where
  "exampleEpisode i n s =
     \<lparr>id = i, number = n, title = ''Episode'', season = s, isComingSoon = None,
      releaseDate = None, telegramCode = Some (''w'' @ i), downloadCode = None, downloadLink = None\<rparr>"

definition exampleTitle :: "string \<Rightarrow> episode list option \<Rightarrow> movie" where
  "exampleTitle c eps =
     \<lparr>category = c, rating = 8, videoQuality = None, customBadges = None,
      screenshots = None, episodes = eps\<rparr>"

lemmas example_simps = exampleEpisode_def exampleTitle_def episodesBySeason_def addEpisode_def
  seasonOf_def truthyNum_def jsSort_def byNumber_def Let_def

section \<open>Properties of the grouping\<close>

subsection \<open>The two sorts\<close>

text \<open>
  With the comparators of the component, \<open>jsSort\<close> is the library's stable insertion
  sort on the episode number, and the ascending sort of integers.
\<close>

lemma insortCmp_byNumber: "insortCmp byNumber x ys = insort_key number x ys"
  by (induction ys) (simp_all add: byNumber_def)

lemma jsSort_byNumber: "jsSort byNumber xs = sort_key number xs"
  by (induction xs) (simp_all add: jsSort_def insortCmp_byNumber)

lemma insortCmp_minus: "insortCmp (\<lambda>a b. a - b) (x::int) ys = insort x ys"
  by (induction ys) simp_all

lemma jsSort_minus: "jsSort (\<lambda>a b. a - b) (xs::int list) = sort xs"
  by (induction xs) (simp_all add: jsSort_def insortCmp_minus)

subsection \<open>One step of the grouping loop\<close>

lemma map_of_addEpisode:
  "map_of (addEpisode g e) =
     (map_of g)(seasonOf e \<mapsto>
        (case map_of g (seasonOf e) of None \<Rightarrow> [] | Some es \<Rightarrow> es) @ [e])"
  by (auto simp: addEpisode_def Let_def map_of_map_entry update_conv' split: option.splits)

lemma distinct_addEpisode:
  "distinct (map fst g) \<Longrightarrow> distinct (map fst (addEpisode g e))"
  by (simp add: addEpisode_def Let_def distinct_map_entry distinct_update split: option.splits)

lemma concat_update_fresh:
  "map_of g s = None \<Longrightarrow>
   mset (concat (map snd (AList.update s [] g))) = mset (concat (map snd g))"
  by (induction g) (auto split: if_splits)

lemma concat_map_entry:
  "map_of g s \<noteq> None \<Longrightarrow>
   mset (concat (map snd (AList.map_entry s (\<lambda>es. es @ [e]) g))) =
     mset (concat (map snd g)) + {#e#}"
  by (induction g) (auto split: if_splits)

lemma mset_addEpisode:
  "mset (concat (map snd (addEpisode g e))) = mset (concat (map snd g)) + {#e#}"
  by (auto simp: addEpisode_def Let_def concat_map_entry concat_update_fresh update_conv'
      split: option.splits)

subsection \<open>The whole loop\<close>

lemma distinct_grouped: "distinct (map fst (foldl addEpisode [] eps))"
  by (induction eps rule: rev_induct) (simp_all add: distinct_addEpisode)

lemma mset_grouped: "mset (concat (map snd (foldl addEpisode [] eps))) = mset eps"
  by (induction eps rule: rev_induct) (simp_all add: mset_addEpisode)

lemma map_of_grouped:
  "map_of (foldl addEpisode [] eps) s =
     (if s \<in> seasonOf ` set eps then Some (filter (\<lambda>e. seasonOf e = s) eps) else None)"
proof (induction eps rule: rev_induct)
  case Nil
  show ?case by simp
next
  case (snoc e eps)
  show ?case
  proof (cases "seasonOf e = s")
    case True
    have "s \<notin> seasonOf ` set eps \<Longrightarrow> filter (\<lambda>x. seasonOf x = s) eps = []"
      by (auto simp: filter_empty_conv)
    with True show ?thesis
      by (auto simp: map_of_addEpisode snoc.IH)
  next
    case False
    then show ?thesis
      by (auto simp: map_of_addEpisode snoc.IH)
  qed
qed

subsection \<open>Sorting the groups\<close>

lemma keys_sorted_groups: "fst \<circ> (\<lambda>(key, g). (key, jsSort byNumber g)) = fst"
  by auto

lemma map_of_sorted_groups:
  "map_of (map (\<lambda>(key, g). (key, jsSort byNumber g)) groups) s =
     map_option (sort_key number) (map_of groups s)"
  by (induction groups) (auto simp: jsSort_byNumber)

lemma mset_sorted_groups:
  "mset (concat (map (snd \<circ> (\<lambda>(key, g). (key, jsSort byNumber g))) groups)) =
     mset (concat (map snd groups))"
  by (induction groups) (auto simp: jsSort_byNumber)

subsection \<open>The result\<close>

lemma episodesBySeason_None: "episodes m = None \<Longrightarrow> episodesBySeason m = []"
  by (simp add: episodesBySeason_def)

lemma episodesBySeason_distinct_Some:
  "episodes m = Some eps \<Longrightarrow> distinct (map fst (episodesBySeason m))"
  by (simp add: episodesBySeason_def keys_sorted_groups distinct_grouped)

lemma episodesBySeason_lookup:
  "episodes m = Some eps \<Longrightarrow>
   map_of (episodesBySeason m) s =
     (if s \<in> seasonOf ` set eps
      then Some (sort_key number (filter (\<lambda>e. seasonOf e = s) eps)) else None)"
  by (simp add: episodesBySeason_def map_of_sorted_groups map_of_grouped)

lemma episodesBySeason_union:
  "episodes m = Some eps \<Longrightarrow> mset (concat (map snd (episodesBySeason m))) = mset eps"
  by (simp add: episodesBySeason_def mset_sorted_groups mset_grouped)

lemma episodesBySeason_keys:
  assumes "episodes m = Some eps"
  shows "fst ` set (episodesBySeason m) = seasonOf ` set eps"
proof -
  have "fst ` set (episodesBySeason m) = dom (map_of (episodesBySeason m))"
    by (simp add: dom_map_of_conv_image_fst)
  also have "\<dots> = seasonOf ` set eps"
    by (auto simp: episodesBySeason_lookup [OF assms] dom_def)
  finally show ?thesis .
qed

lemma group_of_season:
  assumes "episodes m = Some eps" and "(s, g) \<in> set (episodesBySeason m)"
  shows "g = sort_key number (filter (\<lambda>e. seasonOf e = s) eps)"
proof -
  have "map_of (episodesBySeason m) s = Some g"
    using assms episodesBySeason_distinct_Some [OF assms(1)] by simp
  then show ?thesis
    by (simp add: episodesBySeason_lookup [OF assms(1)] split: if_splits)
qed

lemma distinct_episodesBySeason: "distinct (map fst (episodesBySeason m))"
  by (cases "episodes m") (simp_all add: episodesBySeason_None episodesBySeason_distinct_Some)

lemma seasonNumbers_sort: "seasonNumbers m = sort (map fst (episodesBySeason m))"
  by (simp add: seasonNumbers_def jsSort_minus)

lemma set_seasonNumbers: "set (seasonNumbers m) = fst ` set (episodesBySeason m)"
  by (simp add: seasonNumbers_sort)

lemma distinct_seasonNumbers: "distinct (seasonNumbers m)"
  by (simp add: seasonNumbers_sort distinct_episodesBySeason)

lemma currentSeasonEpisodes_Some:
  assumes "episodes m = Some eps"
  shows "currentSeasonEpisodes m s = sort_key number (filter (\<lambda>e. seasonOf e = s) eps)"
proof (cases "s \<in> seasonOf ` set eps")
  case True
  then show ?thesis
    by (simp add: currentSeasonEpisodes_def episodesBySeason_lookup [OF assms])
next
  case False
  then have "filter (\<lambda>e. seasonOf e = s) eps = []"
    by (auto simp: filter_empty_conv)
  with False show ?thesis
    by (simp add: currentSeasonEpisodes_def episodesBySeason_lookup [OF assms])
qed

subsection \<open>The season selector and the selected season\<close>

lemma single_season_index:
  assumes "episodes m = Some eps" and "\<forall>e \<in> set eps. seasonOf e = s"
  shows "length (seasonNumbers m) \<le> 1"
proof -
  have "set (seasonNumbers m) \<subseteq> {s}"
    using assms episodesBySeason_keys [OF assms(1)] by (auto simp: set_seasonNumbers)
  then have "card (set (seasonNumbers m)) \<le> card {s}"
    by (intro card_mono) simp_all
  then show ?thesis
    by (simp add: distinct_card [OF distinct_seasonNumbers])
qed

lemma no_selector_keeps_season:
  assumes "length (seasonNumbers m) \<le> 1" and "reachable m st"
  shows "selectedSeason st = 1"
  using assms(2)
proof (induction rule: reachable.induct)
  case initial
  show ?case by (simp add: initialState_def)
next
  case (step st ev)
  from assms(1) have "seasonSelector m st = []"
    by (simp add: seasonSelector_def)
  with step show ?case
    by (cases ev) simp_all
qed

section \<open>The claims\<close>

subsection \<open>Download resolution\<close>

text \<open>
  C1. \<open>handleDownload\<close> tries the direct link, then the download code, then the fallback
  code. A field is present when it is truthy (defined and not the empty string), which is
  what the handler tests. With the direct link present, and so also with all three
  fields present, the only effect is \<open>window.open\<close> of that link as it is, whatever the
  two codes, the bot name and the messaging client are; without it and with a download
  code the one destination is the deep link of the download code; with the fallback code
  alone it is the deep link of the fallback code.
\<close>

theorem handleDownload_tiers:
  "(truthy (Some link) \<longrightarrow>
      handleDownload bn webApp dc (Some link) fc = [WindowOpen link])
   \<and> (\<not> truthy dlx \<and> truthy (Some code) \<longrightarrow>
      destinations (handleDownload bn webApp (Some code) dlx fcx)
        = [''https://t.me/'' @ bn @ ''?start='' @ code])
   \<and> (\<not> truthy dly \<and> \<not> truthy dcy \<and> truthy (Some fb) \<longrightarrow>
      destinations (handleDownload bn webApp dcy dly (Some fb))
        = [''https://t.me/'' @ bn @ ''?start='' @ fb])"
  by (simp add: handleDownload_def handleWatch_def deepLink_def interpolate_def Let_def)

text \<open>All three fields present; the link absent; the link absent and the code empty.\<close>

theorem handleDownload_tiers_witness:
  "truthy (Some ''https://x/file.mp4'')
   \<and> handleDownload ''bot'' True (Some ''abc'') (Some ''https://x/file.mp4'') (Some ''w1'')
       = [WindowOpen ''https://x/file.mp4'']
   \<and> \<not> truthy None \<and> truthy (Some ''abc'')
   \<and> destinations (handleDownload ''bot'' True (Some ''abc'') None (Some ''w1''))
       = [''https://t.me/bot?start=abc'']
   \<and> \<not> truthy (Some []) \<and> truthy (Some ''w1'')
   \<and> destinations (handleDownload ''bot'' True (Some []) None (Some ''w1''))
       = [''https://t.me/bot?start=w1'']"
  using handleDownload_tiers [where link = "''https://x/file.mp4''" and bn = "''bot''"
      and webApp = True and dc = "Some ''abc''" and fc = "Some ''w1''" and dlx = None
      and fcx = "Some ''w1''" and code = "''abc''" and dly = None and dcy = "Some []"
      and fb = "''w1''"]
  by (simp add: truthy_def)

subsection \<open>The organizer\<close>

text \<open>
  C2. For a title with the episode list \<open>eps\<close>, \<open>episodesBySeason\<close> has one group for each
  key, the groups together hold the episodes of \<open>eps\<close> with their multiplicities, the
  episode numbers of every group are non-decreasing, and the episodes of a group with a
  given number \<open>k\<close> are those of the input with that season and number, in the order of
  the input. Without an episode list, or with the empty one, there is no group.
\<close>

theorem episodesBySeason_organizes:
  "(episodes m = Some eps \<longrightarrow>
      distinct (map fst (episodesBySeason m))
      \<and> mset (concat (map snd (episodesBySeason m))) = mset eps
      \<and> (\<forall>(s, g) \<in> set (episodesBySeason m).
            sorted (map number g)
            \<and> (\<forall>k. filter (\<lambda>e. number e = k) g =
                     filter (\<lambda>e. number e = k) (filter (\<lambda>e. seasonOf e = s) eps))))
   \<and> (episodes m = None \<or> episodes m = Some [] \<longrightarrow> episodesBySeason m = [])"
proof (intro conjI impI)
  assume eps: "episodes m = Some eps"
  show "distinct (map fst (episodesBySeason m))"
    by (rule episodesBySeason_distinct_Some [OF eps])
  show "mset (concat (map snd (episodesBySeason m))) = mset eps"
    by (rule episodesBySeason_union [OF eps])
  show "\<forall>(s, g) \<in> set (episodesBySeason m).
          sorted (map number g)
          \<and> (\<forall>k. filter (\<lambda>e. number e = k) g =
                   filter (\<lambda>e. number e = k) (filter (\<lambda>e. seasonOf e = s) eps))"
  proof (clarify, intro conjI allI)
    fix s g k
    assume "(s, g) \<in> set (episodesBySeason m)"
    then have g: "g = sort_key number (filter (\<lambda>e. seasonOf e = s) eps)"
      by (rule group_of_season [OF eps])
    show "sorted (map number g)"
      by (simp add: g)
    show "filter (\<lambda>e. number e = k) g =
            filter (\<lambda>e. number e = k) (filter (\<lambda>e. seasonOf e = s) eps)"
      unfolding g by (rule sort_key_stable)
  qed
next
  assume "episodes m = None \<or> episodes m = Some []"
  then show "episodesBySeason m = []"
    by (auto simp: episodesBySeason_def)
qed

text \<open>
  Four episodes, of which \<open>a\<close> (no season) and \<open>d\<close> (season 0) have the number 2 and go
  to season 1 in this order, after \<open>c\<close>; and a title without episode list.
\<close>

theorem episodesBySeason_organizes_witness:
  "episodes (exampleTitle ''Series'' (Some [exampleEpisode ''a'' 2 None,
       exampleEpisode ''b'' 5 (Some 2), exampleEpisode ''c'' 1 (Some 1),
       exampleEpisode ''d'' 2 (Some 0)]))
     = Some [exampleEpisode ''a'' 2 None, exampleEpisode ''b'' 5 (Some 2),
       exampleEpisode ''c'' 1 (Some 1), exampleEpisode ''d'' 2 (Some 0)]
   \<and> episodesBySeason (exampleTitle ''Series'' (Some [exampleEpisode ''a'' 2 None,
       exampleEpisode ''b'' 5 (Some 2), exampleEpisode ''c'' 1 (Some 1),
       exampleEpisode ''d'' 2 (Some 0)]))
     = [(1, [exampleEpisode ''c'' 1 (Some 1), exampleEpisode ''a'' 2 None,
             exampleEpisode ''d'' 2 (Some 0)]),
        (2, [exampleEpisode ''b'' 5 (Some 2)])]
   \<and> map (\<lambda>(s, g). (s, map number g)) (episodesBySeason (exampleTitle ''Series''
         (Some [exampleEpisode ''a'' 2 None, exampleEpisode ''b'' 5 (Some 2),
           exampleEpisode ''c'' 1 (Some 1), exampleEpisode ''d'' 2 (Some 0)])))
     = [(1, [1, 2, 2]), (2, [5])]
   \<and> episodes (exampleTitle ''Series'' None) = None
   \<and> episodesBySeason (exampleTitle ''Series'' None) = []"
  using episodesBySeason_organizes [of "exampleTitle ''Series''
       (Some [exampleEpisode ''a'' 2 None, exampleEpisode ''b'' 5 (Some 2),
         exampleEpisode ''c'' 1 (Some 1), exampleEpisode ''d'' 2 (Some 0)])"
       "[exampleEpisode ''a'' 2 None, exampleEpisode ''b'' 5 (Some 2),
         exampleEpisode ''c'' 1 (Some 1), exampleEpisode ''d'' 2 (Some 0)]"]
    episodesBySeason_organizes [of "exampleTitle ''Series'' None" "[]"]
  by (simp add: example_simps)

text \<open>
  C6. An episode whose season is absent or falsy (\<open>undefined\<close> or 0) has the key 1: it is
  among the episodes displayed for season 1 and in no group with another key. An episode
  \<open>a\<close> without season and with number 3 and an episode \<open>b\<close> with season 1 and number 1,
  in either order, give the one group of season 1, which is \<open>b\<close> then \<open>a\<close>: the numbers
  1, 3.
\<close>

theorem missing_season_is_season_one:
  "(episodes m = Some eps \<and> e \<in> set eps \<and> \<not> truthyNum (season e) \<longrightarrow>
      seasonOf e = 1 \<and> e \<in> set (currentSeasonEpisodes m 1)
      \<and> (\<forall>(s, g) \<in> set (episodesBySeason m). e \<in> set g \<longrightarrow> s = 1))
   \<and> (season a = None \<and> number a = 3 \<and> season b = Some 1 \<and> number b = 1 \<longrightarrow>
        episodesBySeason (m\<lparr>episodes := Some [a, b]\<rparr>) = [(1, [b, a])]
        \<and> episodesBySeason (m\<lparr>episodes := Some [b, a]\<rparr>) = [(1, [b, a])]
        \<and> map number (currentSeasonEpisodes (m\<lparr>episodes := Some [a, b]\<rparr>) 1) = [1, 3])"
proof (intro conjI impI)
  assume h: "episodes m = Some eps \<and> e \<in> set eps \<and> \<not> truthyNum (season e)"
  then have eps: "episodes m = Some eps" and e: "e \<in> set eps" by simp_all
  show one: "seasonOf e = 1"
    using h by (simp add: seasonOf_def)
  show "e \<in> set (currentSeasonEpisodes m 1)"
    using e one by (simp add: currentSeasonEpisodes_Some [OF eps])
  show "\<forall>(s, g) \<in> set (episodesBySeason m). e \<in> set g \<longrightarrow> s = 1"
  proof (clarify)
    fix s g
    assume "(s, g) \<in> set (episodesBySeason m)" and "e \<in> set g"
    then have "e \<in> set (sort_key number (filter (\<lambda>e. seasonOf e = s) eps))"
      using group_of_season [OF eps] by blast
    then show "s = 1" using one by simp
  qed
next
  assume h: "season a = None \<and> number a = 3 \<and> season b = Some 1 \<and> number b = 1"
  then show ab: "episodesBySeason (m\<lparr>episodes := Some [a, b]\<rparr>) = [(1, [b, a])]"
    by (simp add: episodesBySeason_def addEpisode_def seasonOf_def truthyNum_def jsSort_def
        byNumber_def Let_def)
  from h show "episodesBySeason (m\<lparr>episodes := Some [b, a]\<rparr>) = [(1, [b, a])]"
    by (simp add: episodesBySeason_def addEpisode_def seasonOf_def truthyNum_def jsSort_def
        byNumber_def Let_def)
  from ab h show "map number (currentSeasonEpisodes (m\<lparr>episodes := Some [a, b]\<rparr>) 1) = [1, 3]"
    by (simp add: currentSeasonEpisodes_def)
qed

theorem missing_season_is_season_one_witness:
  "episodes (exampleTitle ''Series''
        (Some [exampleEpisode ''a'' 3 None, exampleEpisode ''b'' 1 (Some 1)]))
      = Some [exampleEpisode ''a'' 3 None, exampleEpisode ''b'' 1 (Some 1)]
   \<and> exampleEpisode ''a'' 3 None
        \<in> set [exampleEpisode ''a'' 3 None, exampleEpisode ''b'' 1 (Some 1)]
   \<and> \<not> truthyNum (season (exampleEpisode ''a'' 3 None))
   \<and> exampleEpisode ''a'' 3 None \<in> set (currentSeasonEpisodes (exampleTitle ''Series''
        (Some [exampleEpisode ''a'' 3 None, exampleEpisode ''b'' 1 (Some 1)])) 1)
   \<and> season (exampleEpisode ''a'' 3 None) = None \<and> number (exampleEpisode ''a'' 3 None) = 3
   \<and> season (exampleEpisode ''b'' 1 (Some 1)) = Some 1
   \<and> number (exampleEpisode ''b'' 1 (Some 1)) = 1
   \<and> episodesBySeason (exampleTitle ''Series''
        (Some [exampleEpisode ''a'' 3 None, exampleEpisode ''b'' 1 (Some 1)]))
       = [(1, [exampleEpisode ''b'' 1 (Some 1), exampleEpisode ''a'' 3 None])]"
  using missing_season_is_season_one [of
      "exampleTitle ''Series'' (Some [exampleEpisode ''a'' 3 None, exampleEpisode ''b'' 1 (Some 1)])"
      "[exampleEpisode ''a'' 3 None, exampleEpisode ''b'' 1 (Some 1)]"
      "exampleEpisode ''a'' 3 None" "exampleEpisode ''a'' 3 None"
      "exampleEpisode ''b'' 1 (Some 1)"]
  by (simp add: example_simps currentSeasonEpisodes_def)

text \<open>
  C8. \<open>currentSeasonEpisodes\<close> is a lookup with a default and has no failing case: for a
  selected season that is not in \<open>seasonNumbers\<close> it is the empty list, in particular for
  season 2 when \<open>seasonNumbers\<close> is \<open>[1]\<close>; for a member of \<open>seasonNumbers\<close> it is not
  empty.
\<close>

theorem currentSeasonEpisodes_total:
  "(s \<notin> set (seasonNumbers m) \<longrightarrow> currentSeasonEpisodes m s = [])
   \<and> (s \<in> set (seasonNumbers m) \<longrightarrow> currentSeasonEpisodes m s \<noteq> [])
   \<and> (seasonNumbers m = [1] \<longrightarrow> currentSeasonEpisodes m 2 = [])"
proof (intro conjI impI)
  have none: "currentSeasonEpisodes m t = []" if "t \<notin> set (seasonNumbers m)" for t
  proof -
    from that have "map_of (episodesBySeason m) t = None"
      by (simp add: set_seasonNumbers map_of_eq_None_iff)
    then show ?thesis by (simp add: currentSeasonEpisodes_def)
  qed
  show "currentSeasonEpisodes m s = []" if "s \<notin> set (seasonNumbers m)"
    using that by (rule none)
  show "currentSeasonEpisodes m 2 = []" if "seasonNumbers m = [1]"
    using that by (intro none) simp
  show "currentSeasonEpisodes m s \<noteq> []" if s: "s \<in> set (seasonNumbers m)"
  proof (cases "episodes m")
    case None
    with s show ?thesis by (simp add: set_seasonNumbers episodesBySeason_None)
  next
    case (Some eps)
    from s have "s \<in> seasonOf ` set eps"
      using episodesBySeason_keys [OF Some] by (simp add: set_seasonNumbers)
    then have "filter (\<lambda>e. seasonOf e = s) eps \<noteq> []"
      by (auto simp: filter_empty_conv)
    then have "sort_key number (filter (\<lambda>e. seasonOf e = s) eps) \<noteq> []"
      by (metis length_sort list.size(3) length_0_conv)
    then show ?thesis by (simp add: currentSeasonEpisodes_Some [OF Some])
  qed
qed

theorem currentSeasonEpisodes_total_witness:
  "seasonNumbers (exampleTitle ''Series''
       (Some [exampleEpisode ''a'' 3 None, exampleEpisode ''b'' 1 (Some 1)])) = [1]
   \<and> 2 \<notin> set (seasonNumbers (exampleTitle ''Series''
       (Some [exampleEpisode ''a'' 3 None, exampleEpisode ''b'' 1 (Some 1)])))
   \<and> currentSeasonEpisodes (exampleTitle ''Series''
       (Some [exampleEpisode ''a'' 3 None, exampleEpisode ''b'' 1 (Some 1)])) 2 = []
   \<and> 1 \<in> set (seasonNumbers (exampleTitle ''Series''
       (Some [exampleEpisode ''a'' 3 None, exampleEpisode ''b'' 1 (Some 1)])))
   \<and> currentSeasonEpisodes (exampleTitle ''Series''
       (Some [exampleEpisode ''a'' 3 None, exampleEpisode ''b'' 1 (Some 1)])) 1
       = [exampleEpisode ''b'' 1 (Some 1), exampleEpisode ''a'' 3 None]"
  using currentSeasonEpisodes_total [of 2
      "exampleTitle ''Series'' (Some [exampleEpisode ''a'' 3 None, exampleEpisode ''b'' 1 (Some 1)])"]
    currentSeasonEpisodes_total [of 1
      "exampleTitle ''Series'' (Some [exampleEpisode ''a'' 3 None, exampleEpisode ''b'' 1 (Some 1)])"]
  by (simp add: example_simps currentSeasonEpisodes_def seasonNumbers_def)

subsection \<open>Classification\<close>

text \<open>
  C3. A title is a series exactly when its category is \<open>Series\<close> or \<open>Korean Drama\<close>, or
  it has an episode list that is not empty. Two titles with the same category and the same
  episode list are classified alike, whatever their other attributes (the titles may be
  of different extensions of the record).
\<close>

theorem isSeries_iff:
  "(isSeries m \<longleftrightarrow>
      category m \<in> {''Series'', ''Korean Drama''}
      \<or> (\<exists>eps. episodes m = Some eps \<and> eps \<noteq> []))
   \<and> (category m = category m' \<and> episodes m = episodes m' \<longrightarrow> isSeries m = isSeries m')"
  by (auto simp: isSeries_def split: option.splits)

text \<open>
  The four combinations of \<open>category is Series or Korean Drama\<close> and \<open>there are
  episodes\<close>, and a change of the rating.
\<close>

theorem isSeries_iff_witness:
  "isSeries (exampleTitle ''Series'' (Some [exampleEpisode ''a'' 1 None]))
   \<and> isSeries (exampleTitle ''Korean Drama'' None)
   \<and> isSeries (exampleTitle ''Movie'' (Some [exampleEpisode ''a'' 1 None]))
   \<and> \<not> isSeries (exampleTitle ''Movie'' (Some []))
   \<and> category (exampleTitle ''Movie'' None)
       = category ((exampleTitle ''Movie'' None)\<lparr>rating := 1\<rparr>)
   \<and> episodes (exampleTitle ''Movie'' None)
       = episodes ((exampleTitle ''Movie'' None)\<lparr>rating := 1\<rparr>)
   \<and> isSeries (exampleTitle ''Movie'' None)
       = isSeries ((exampleTitle ''Movie'' None)\<lparr>rating := 1\<rparr>)"
  using isSeries_iff [of "exampleTitle ''Series'' (Some [exampleEpisode ''a'' 1 None])"
      "exampleTitle ''Series'' (Some [exampleEpisode ''a'' 1 None])"]
    isSeries_iff [of "exampleTitle ''Korean Drama'' None" "exampleTitle ''Korean Drama'' None"]
    isSeries_iff [of "exampleTitle ''Movie'' (Some [exampleEpisode ''a'' 1 None])"
      "exampleTitle ''Movie'' (Some [exampleEpisode ''a'' 1 None])"]
    isSeries_iff [of "exampleTitle ''Movie'' (Some [])" "exampleTitle ''Movie'' (Some [])"]
    isSeries_iff [of "exampleTitle ''Movie'' None"
      "(exampleTitle ''Movie'' None)\<lparr>rating := 1\<rparr>"]
  by (auto simp: exampleTitle_def)

subsection \<open>Watch resolution\<close>

text \<open>
  C4, as amended. \<open>handleWatch\<close> does not test its code: for every code, also for the
  empty string and for \<open>undefined\<close>, it tests the messaging client once and opens one
  destination, the deep link of the bot name and the code; for a string \<open>c\<close> this is
  \<open>https://t.me/\<close>, the bot name, \<open>?start=\<close> and \<open>c\<close>. The watch button of an episode
  passes \<open>ep.telegramCode\<close>, so that the download code and the direct link of the episode do
  not change what it does. There is no code for which the handler opens nothing.
\<close>

theorem handleWatch_always_opens:
  "handleWatch bn webApp code =
      [CheckWebApp,
       if webApp then OpenTelegramLink (deepLink bn code) else WindowOpen (deepLink bn code)]
   \<and> destinations (handleWatch bn webApp code) = [deepLink bn code]
   \<and> deepLink bn (Some c) = ''https://t.me/'' @ bn @ ''?start='' @ c
   \<and> onClick bn webApp (ep\<lparr>downloadCode := dc, downloadLink := dl\<rparr>) WatchControl
        = onClick bn webApp ep WatchControl"
  by (simp add: handleWatch_def deepLink_def interpolate_def)

theorem handleWatch_always_opens_witness:
  "handleWatch ''bot'' True (Some ''abc'')
     = [CheckWebApp, OpenTelegramLink ''https://t.me/bot?start=abc'']
   \<and> destinations (handleWatch ''bot'' True (Some ''abc'')) = [''https://t.me/bot?start=abc'']"
  using handleWatch_always_opens [of "''bot''" True "Some ''abc''" "''abc''"]
  by simp

text \<open>
  The claim as it was stated fails for the absent code: with the empty string as code, and
  with \<open>undefined\<close>, \<open>handleWatch\<close> opens a window (there is no messaging client) on a deep
  link, with an empty start parameter and with the start parameter \<open>undefined\<close>.
\<close>

theorem handleWatch_empty_code:
  "handleWatch ''bot'' False (Some [])
     = [CheckWebApp, WindowOpen ''https://t.me/bot?start='']
   \<and> handleWatch ''bot'' False None
     = [CheckWebApp, WindowOpen ''https://t.me/bot?start=undefined'']"
  by (simp add: handleWatch_def deepLink_def interpolate_def)

subsection \<open>The download button of an episode\<close>

text \<open>
  C5. The episode has the direct link \<open>https://x/file.mp4\<close> and the download code
  \<open>abc\<close>. Its download button is rendered, and a click calls \<open>handleDownload\<close> with the
  download code alone: what is opened is the deep link of \<open>abc\<close>. The handler, given the
  link as well, opens the link.
\<close>

theorem episode_download_ignores_link:
  "DownloadControl \<in> set (episodeControls
      ((exampleEpisode ''e1'' 1 None)\<lparr>downloadCode := Some ''abc'',
         downloadLink := Some ''https://x/file.mp4''\<rparr>))
   \<and> onClick ''bot'' False
        ((exampleEpisode ''e1'' 1 None)\<lparr>downloadCode := Some ''abc'',
           downloadLink := Some ''https://x/file.mp4''\<rparr>) DownloadControl
      = [CheckWebApp, WindowOpen ''https://t.me/bot?start=abc'']
   \<and> handleDownload ''bot'' False (Some ''abc'') (Some ''https://x/file.mp4'') None
      = [WindowOpen ''https://x/file.mp4'']"
  by (simp add: exampleEpisode_def episodeControls_def isLocked_def truthyFlag_def truthy_def
      handleDownload_def deepLink_def interpolate_def)

subsection \<open>Locked episodes\<close>

text \<open>
  C7, as amended. An episode is locked exactly when \<open>isComingSoon\<close> is true. A locked
  episode has no control, whatever its codes and link are. An episode that is not locked
  has the watch control, whatever its codes and link are, and it has the download control
  exactly when its download code is truthy.
\<close>

theorem comingSoon_locks_controls:
  "(isLocked ep \<longleftrightarrow> isComingSoon ep = Some True)
   \<and> (isComingSoon ep = Some True \<longrightarrow> episodeControls ep = [])
   \<and> (isComingSoon ep \<noteq> Some True \<longrightarrow>
        WatchControl \<in> set (episodeControls ep)
        \<and> (DownloadControl \<in> set (episodeControls ep) \<longleftrightarrow> truthy (downloadCode ep)))"
  by (auto simp: isLocked_def truthyFlag_def episodeControls_def split: option.splits)

theorem comingSoon_locks_controls_witness:
  "isComingSoon ((exampleEpisode ''e1'' 1 None)\<lparr>isComingSoon := Some True,
       downloadCode := Some ''abc'', downloadLink := Some ''https://x/file.mp4''\<rparr>) = Some True
   \<and> episodeControls ((exampleEpisode ''e1'' 1 None)\<lparr>isComingSoon := Some True,
       downloadCode := Some ''abc'', downloadLink := Some ''https://x/file.mp4''\<rparr>) = []
   \<and> isComingSoon ((exampleEpisode ''e1'' 1 None)\<lparr>telegramCode := None\<rparr>) \<noteq> Some True
   \<and> WatchControl \<in> set (episodeControls ((exampleEpisode ''e1'' 1 None)\<lparr>telegramCode := None\<rparr>))
   \<and> DownloadControl
        \<notin> set (episodeControls ((exampleEpisode ''e1'' 1 None)\<lparr>telegramCode := None\<rparr>))"
  using comingSoon_locks_controls [of "(exampleEpisode ''e1'' 1 None)\<lparr>isComingSoon := Some True,
       downloadCode := Some ''abc'', downloadLink := Some ''https://x/file.mp4''\<rparr>"]
    comingSoon_locks_controls [of "(exampleEpisode ''e1'' 1 None)\<lparr>telegramCode := None\<rparr>"]
  by (simp add: exampleEpisode_def truthy_def)

text \<open>
  The claim as it was stated fails for the download control: an episode that is not
  coming soon and has no download code is rendered with the watch control alone.
\<close>

theorem download_control_needs_code:
  "episodeControls
     ((exampleEpisode ''e1'' 1 None)\<lparr>isComingSoon := Some False, downloadCode := None\<rparr>)
     = [WatchControl]"
  by (simp add: exampleEpisode_def episodeControls_def isLocked_def truthyFlag_def truthy_def)

subsection \<open>Delivery\<close>

text \<open>
  C9. A call that resolves a destination takes one delivery path. A deep link is
  delivered after one test of the messaging client, by \<open>openTelegramLink\<close> when the
  client is there and by \<open>window.open\<close> otherwise: so does \<open>handleWatch\<close> for every
  code, and \<open>handleDownload\<close> for the download code and for the fallback code. A direct
  link is opened by \<open>window.open\<close>, whether the client is there or not. No call tests
  the client twice or opens two destinations. Every click on a control of an episode
  card tests the client once and opens one destination, the deep link of the code of
  that control, on the path that the test chooses.
\<close>

theorem one_delivery_path:
  "handleWatch bn webApp code =
      [CheckWebApp,
       if webApp then OpenTelegramLink (deepLink bn code) else WindowOpen (deepLink bn code)]
   \<and> (truthy (Some link) \<longrightarrow> handleDownload bn webApp dc (Some link) fc = [WindowOpen link])
   \<and> (\<not> truthy dlx \<and> truthy (Some c) \<longrightarrow>
        handleDownload bn webApp (Some c) dlx fcx =
          [CheckWebApp,
           if webApp then OpenTelegramLink (deepLink bn (Some c))
           else WindowOpen (deepLink bn (Some c))])
   \<and> (\<not> truthy dly \<and> \<not> truthy dcy \<and> truthy (Some fb) \<longrightarrow>
        handleDownload bn webApp dcy dly (Some fb) =
          [CheckWebApp,
           if webApp then OpenTelegramLink (deepLink bn (Some fb))
           else WindowOpen (deepLink bn (Some fb))])
   \<and> count_list (handleDownload bn webApp dcw dlw fcw) CheckWebApp \<le> 1
   \<and> length (destinations (handleDownload bn webApp dcw dlw fcw)) \<le> 1
   \<and> (ctl \<in> set (episodeControls ep) \<longrightarrow>
        count_list (onClick bn webApp ep ctl) CheckWebApp = 1
        \<and> length (destinations (onClick bn webApp ep ctl)) = 1
        \<and> onClick bn webApp ep ctl =
            [CheckWebApp,
             if webApp
             then OpenTelegramLink (deepLink bn
               (case ctl of WatchControl \<Rightarrow> telegramCode ep | DownloadControl \<Rightarrow> downloadCode ep))
             else WindowOpen (deepLink bn
               (case ctl of WatchControl \<Rightarrow> telegramCode ep | DownloadControl \<Rightarrow> downloadCode ep))])"
proof -
  have click: "count_list (onClick bn webApp ep ctl) CheckWebApp = 1
        \<and> length (destinations (onClick bn webApp ep ctl)) = 1
        \<and> onClick bn webApp ep ctl =
            [CheckWebApp,
             if webApp
             then OpenTelegramLink (deepLink bn
               (case ctl of WatchControl \<Rightarrow> telegramCode ep | DownloadControl \<Rightarrow> downloadCode ep))
             else WindowOpen (deepLink bn
               (case ctl of WatchControl \<Rightarrow> telegramCode ep | DownloadControl \<Rightarrow> downloadCode ep))]"
    if "ctl \<in> set (episodeControls ep)"
  proof (cases ctl)
    case WatchControl
    then show ?thesis by (simp add: handleWatch_def Let_def)
  next
    case DownloadControl
    with that have "truthy (downloadCode ep)"
      by (simp add: episodeControls_def split: if_splits)
    with DownloadControl show ?thesis
      by (simp add: handleDownload_def truthy_def Let_def)
  qed
  have most: "count_list (handleDownload bn webApp dcw dlw fcw) CheckWebApp \<le> 1
      \<and> length (destinations (handleDownload bn webApp dcw dlw fcw)) \<le> 1"
    by (simp add: handleDownload_def handleWatch_def Let_def)
  show ?thesis
    using click most by (simp add: handleDownload_def handleWatch_def Let_def)
qed

theorem one_delivery_path_witness:
  "truthy (Some ''https://x/file.mp4'')
   \<and> handleDownload ''bot'' True (Some ''abc'') (Some ''https://x/file.mp4'') (Some ''w1'')
        = [WindowOpen ''https://x/file.mp4'']
   \<and> handleDownload ''bot'' False (Some ''abc'') (Some ''https://x/file.mp4'') (Some ''w1'')
        = [WindowOpen ''https://x/file.mp4'']
   \<and> \<not> truthy None \<and> truthy (Some ''abc'')
   \<and> handleDownload ''bot'' True (Some ''abc'') None None
        = [CheckWebApp, OpenTelegramLink ''https://t.me/bot?start=abc'']
   \<and> handleDownload ''bot'' False (Some ''abc'') None None
        = [CheckWebApp, WindowOpen ''https://t.me/bot?start=abc'']
   \<and> \<not> truthy (Some []) \<and> truthy (Some ''w1'')
   \<and> handleDownload ''bot'' True (Some []) None (Some ''w1'')
        = [CheckWebApp, OpenTelegramLink ''https://t.me/bot?start=w1'']
   \<and> DownloadControl
        \<in> set (episodeControls ((exampleEpisode ''e1'' 1 None)\<lparr>downloadCode := Some ''abc''\<rparr>))
   \<and> onClick ''bot'' True ((exampleEpisode ''e1'' 1 None)\<lparr>downloadCode := Some ''abc''\<rparr>)
        DownloadControl
        = [CheckWebApp, OpenTelegramLink ''https://t.me/bot?start=abc'']
   \<and> WatchControl \<in> set (episodeControls (exampleEpisode ''e1'' 1 None))
   \<and> onClick ''bot'' False (exampleEpisode ''e1'' 1 None) WatchControl
        = [CheckWebApp, WindowOpen ''https://t.me/bot?start=we1'']"
  using one_delivery_path [where bn = "''bot''" and webApp = True
      and link = "''https://x/file.mp4''" and dc = "Some ''abc''" and fc = "Some ''w1''"
      and dlx = None and c = "''abc''" and fcx = None and dly = None and dcy = "Some []"
      and fb = "''w1''" and ctl = DownloadControl
      and ep = "(exampleEpisode ''e1'' 1 None)\<lparr>downloadCode := Some ''abc''\<rparr>"]
    one_delivery_path [where bn = "''bot''" and webApp = False
      and link = "''https://x/file.mp4''" and dc = "Some ''abc''" and fc = "Some ''w1''"
      and dlx = None and c = "''abc''" and fcx = None and dly = None and dcy = "Some []"
      and fb = "''w1''" and ctl = WatchControl and ep = "exampleEpisode ''e1'' 1 None"]
  by (simp add: truthy_def deepLink_def interpolate_def exampleEpisode_def episodeControls_def
      isLocked_def truthyFlag_def)

subsection \<open>The season selector\<close>

text \<open>
  C10. The season buttons are rendered only when \<open>seasonNumbers\<close> has more than one
  member, and its members are distinct season numbers. For a title whose episodes all
  have the same season, in every state that one mounted view of the title can reach, no
  season button is rendered and the selected season is 1, its initial value.
\<close>

theorem seasonSelector_needs_several_seasons:
  "(seasonSelector m st \<noteq> [] \<longrightarrow>
      seasonSelector m st = seasonNumbers m \<and> 1 < card (set (seasonNumbers m)))
   \<and> (episodes m = Some eps \<and> (\<forall>e \<in> set eps. seasonOf e = s) \<and> reachable m st' \<longrightarrow>
        seasonSelector m st' = [] \<and> selectedSeason st' = 1)"
proof (intro conjI impI)
  assume "seasonSelector m st \<noteq> []"
  then have "seasonSelector m st = seasonNumbers m" and "1 < length (seasonNumbers m)"
    by (simp_all add: seasonSelector_def split: if_splits)
  then show "seasonSelector m st = seasonNumbers m" and "1 < card (set (seasonNumbers m))"
    by (simp_all add: distinct_card [OF distinct_seasonNumbers])
next
  assume h: "episodes m = Some eps \<and> (\<forall>e \<in> set eps. seasonOf e = s) \<and> reachable m st'"
  then have len: "length (seasonNumbers m) \<le> 1"
    using single_season_index by blast
  then show "seasonSelector m st' = []"
    by (simp add: seasonSelector_def)
  from len h show "selectedSeason st' = 1"
    using no_selector_keeps_season by blast
qed

text \<open>
  A series with the seasons 1 and 2, in the initial state; and a series whose two
  episodes are in season 2, after a click on the second tab.
\<close>

theorem seasonSelector_needs_several_seasons_witness:
  "seasonSelector (exampleTitle ''Series''
       (Some [exampleEpisode ''a'' 1 (Some 2), exampleEpisode ''b'' 1 None])) initialState
     = [1, 2]
   \<and> card (set (seasonNumbers (exampleTitle ''Series''
         (Some [exampleEpisode ''a'' 1 (Some 2), exampleEpisode ''b'' 1 None])))) = 2
   \<and> episodes (exampleTitle ''Series''
         (Some [exampleEpisode ''a'' 1 (Some 2), exampleEpisode ''b'' 2 (Some 2)]))
       = Some [exampleEpisode ''a'' 1 (Some 2), exampleEpisode ''b'' 2 (Some 2)]
   \<and> seasonOf (exampleEpisode ''a'' 1 (Some 2)) = 2
   \<and> seasonOf (exampleEpisode ''b'' 2 (Some 2)) = 2
   \<and> reachable (exampleTitle ''Series''
         (Some [exampleEpisode ''a'' 1 (Some 2), exampleEpisode ''b'' 2 (Some 2)]))
       (handle initialState (SetActiveTab InfoTab))
   \<and> seasonSelector (exampleTitle ''Series''
         (Some [exampleEpisode ''a'' 1 (Some 2), exampleEpisode ''b'' 2 (Some 2)]))
       (handle initialState (SetActiveTab InfoTab)) = []
   \<and> selectedSeason (handle initialState (SetActiveTab InfoTab)) = 1"
proof -
  have r: "reachable (exampleTitle ''Series''
         (Some [exampleEpisode ''a'' 1 (Some 2), exampleEpisode ''b'' 2 (Some 2)]))
       (handle initialState (SetActiveTab InfoTab))"
    by (rule reachable.step [OF reachable.initial]) (simp add: isSeries_def exampleTitle_def)
  have e: "\<forall>e \<in> set [exampleEpisode ''a'' 1 (Some 2), exampleEpisode ''b'' 2 (Some 2)].
      seasonOf e = 2"
    by (simp add: exampleEpisode_def seasonOf_def truthyNum_def)
  have n: "seasonNumbers (exampleTitle ''Series''
         (Some [exampleEpisode ''a'' 1 (Some 2), exampleEpisode ''b'' 1 None])) = [1, 2]"
    by (simp add: example_simps seasonNumbers_def)
  show ?thesis
    using r e n
      seasonSelector_needs_several_seasons [of
        "exampleTitle ''Series'' (Some [exampleEpisode ''a'' 1 (Some 2), exampleEpisode ''b'' 1 None])"
        initialState "[]" 0 initialState]
      seasonSelector_needs_several_seasons [of
        "exampleTitle ''Series'' (Some [exampleEpisode ''a'' 1 (Some 2), exampleEpisode ''b'' 2 (Some 2)])"
        "handle initialState (SetActiveTab InfoTab)"
        "[exampleEpisode ''a'' 1 (Some 2), exampleEpisode ''b'' 2 (Some 2)]" 2
        "handle initialState (SetActiveTab InfoTab)"]
    by (simp add: seasonSelector_def initialState_def isSeries_def exampleTitle_def)
qed

end
